theory Spec2Isabelle
  imports Main "HOL-Library.Word"
begin

section \<open>Data model of the backup task worker (package exector)\<close>

text \<open>
  A Go \<^verbatim>\<open>error\<close> value is represented by its message; \<^verbatim>\<open>nil\<close> is \<open>None\<close>
  of \<open>err option\<close>. A \<^verbatim>\<open>[]byte\<close> and a Go \<^verbatim>\<open>string\<close> are byte lists.
  Pointers that the JSON decoder may leave \<^verbatim>\<open>nil\<close> are options; dereferencing
  \<open>None\<close> is the outcome \<open>Panic\<close>. Every pointer of a decoded snapshot is
  fresh, so no two list entries alias.
\<close>

type_synonym err = string

datatype outcome = OK | Error err | Panic

text \<open>The fields of the types of package dbmodel that the worker reads or writes.\<close>

record VersionInfo =
  BuildVersion :: string
  DeliveredType :: string
  DeliveredPath :: string
  FinalStatus :: string

record TenantServices =
  TenantID :: string
  Service_ServiceID :: string
  ServiceAlias :: string
  ServiceName :: string

record TenantServiceVolume =
  VolumeName :: string
  HostPath :: string

record TenantPluginBuildVersion =
  PluginID :: string
  DeployVersion :: string
  BuildLocalImage :: string

record AppBackup =
  Status :: string
  AppBackup_SourceDir :: string
  AppBackup_SourceType :: string
  BuckupSize :: "64 word"

text \<open>RegionServiceSnapshot and AppSnapshot: the fields the backup touches.\<close>

record RegionServiceSnapshot =
  ServiceID :: string
  Service :: "TenantServices option"
  ServiceVolume :: "TenantServiceVolume option list"
  Versions :: "VersionInfo option list"

record AppSnapshot =
  Services :: "RegionServiceSnapshot option list"
  PluginBuildVersions :: "TenantPluginBuildVersion option list"

record slug_info =
  SlugInfo_Namespace :: string
  FTPHost :: string
  FTPPort :: string
  FTPUser :: string
  FTPPassword :: string

record image_info =
  HubURL :: string
  HubUser :: string
  HubPassword :: string
  ImageInfo_Namespace :: string
  IsTrust :: bool

text \<open>BackupAPPNew without its two handles (Logger, DockerClient).\<close>

record BackupAPPNew =
  GroupID :: string
  ServiceIDs :: "string list"
  Mode :: string
  Version :: string
  EventID :: string
  SlugInfo :: slug_info
  ImageInfo :: image_info
  SourceDir :: string
  SourceType :: string
  BackupID :: string
  BackupSize :: "64 word"

definition OldMetadata :: string where
  "OldMetadata = ''OldMetadata''"

definition NewMetadata :: string where
  "NewMetadata = ''NewMetadata''"

text \<open>The package variable \<^verbatim>\<open>maxBackupVersionSize\<close>; the functions below take its
  current value as the parameter \<open>cap\<close>.\<close>

definition maxBackupVersionSize :: int where
  "maxBackupVersionSize = 3"

section \<open>The machine: task fields, outside world, what was done, what was logged\<close>

datatype artifact = SlugFile | ImageRef

datatype destination = Local | Remote

datatype zip_site = AllData | Volume

text \<open>
  \<open>Transferred k d src dst n\<close>: an upload of kind \<open>k\<close> to destination \<open>d\<close> returned
  nil; \<open>n\<close> is the size the collaborator reported and the task added to BackupSize,
  \<open>None\<close> when the code asked for no size. \<open>ZipCall site src dst r\<close>: \<^verbatim>\<open>util.Zip\<close>
  was called on persistent data at that place of the source and returned \<open>r\<close>.
  \<open>Archived src dst n\<close>: the working directory was zipped and \<open>n\<close>, the reported
  size of the zip, was added to BackupSize.
\<close>

datatype event =
    Transferred artifact destination string string "64 word option"
  | ZipCall zip_site string string "err option"
  | PluginImageSaved string string
  | Archived string string "64 word"

datatype logline =
    LoggerInfo string string string
  | LoggerError string string string
  | LogrusErrorf string
  | LogrusInfof string

record 'w state = BackupAPPNew +
  world :: 'w
  trace :: "event list"
  logs :: "logline list"

datatype stat_result = StatNotExist | StatError err | StatOk bool

record image_name =
  Host :: string
  Name :: string
  Tag :: string

text \<open>
  The collaborators outside this file. One that touches the file system, the network,
  the registry or the database takes the world and returns the new one, so that its
  answer may differ from call to call; the others are pure.
\<close>

record 'w env =
  ReadFile :: "string \<Rightarrow> 'w \<Rightarrow> (err + string) \<times> 'w"
  Unmarshal_AppSnapshot :: "string \<Rightarrow> err + AppSnapshot"
  Unmarshal_Services :: "string \<Rightarrow> err + RegionServiceSnapshot option list"
  Translation :: "string \<Rightarrow> string"
  Getenv :: "string \<Rightarrow> string"
  path_Join :: "string list \<Rightarrow> string"
  filepath_Dir :: "string \<Rightarrow> string"
  ImageNameHandle :: "string \<Rightarrow> image_name"
  NewInsecure :: "string \<Rightarrow> string \<Rightarrow> string \<Rightarrow> 'w \<Rightarrow> err option \<times> 'w"
  Manifest :: "string \<Rightarrow> string \<Rightarrow> string \<Rightarrow> 'w \<Rightarrow> err option \<times> 'w"
  Stat :: "string \<Rightarrow> 'w \<Rightarrow> stat_result \<times> 'w"
  NewSFTPClient :: "string \<Rightarrow> string \<Rightarrow> string \<Rightarrow> string \<Rightarrow> 'w \<Rightarrow> err option \<times> 'w"
  SFTPClose :: "'w \<Rightarrow> 'w"
  PushFile :: "string \<Rightarrow> string \<Rightarrow> 'w \<Rightarrow> err option \<times> 'w"
  GetFileSize :: "string \<Rightarrow> 'w \<Rightarrow> 64 word \<times> 'w"
  CheckAndCreateDir :: "string \<Rightarrow> 'w \<Rightarrow> 'w"
  CopyFileWithProgress :: "string \<Rightarrow> string \<Rightarrow> 'w \<Rightarrow> err option \<times> 'w"
  CreateShareImage :: "VersionInfo \<Rightarrow> string \<Rightarrow> string \<Rightarrow> string \<Rightarrow> err + string"
  ImagePull :: "string \<Rightarrow> string \<Rightarrow> string \<Rightarrow> int \<Rightarrow> 'w \<Rightarrow> (err + 64 word) \<times> 'w"
  ImageTag :: "string \<Rightarrow> string \<Rightarrow> int \<Rightarrow> 'w \<Rightarrow> err option \<times> 'w"
  TrustedImagePush :: "string \<Rightarrow> string \<Rightarrow> string \<Rightarrow> int \<Rightarrow> 'w \<Rightarrow> err option \<times> 'w"
  ImagePush :: "string \<Rightarrow> string \<Rightarrow> string \<Rightarrow> int \<Rightarrow> 'w \<Rightarrow> err option \<times> 'w"
  ImageSave :: "string \<Rightarrow> string \<Rightarrow> 'w \<Rightarrow> err option \<times> 'w"
  DirIsEmpty :: "string \<Rightarrow> 'w \<Rightarrow> bool \<times> 'w"
  Zip :: "string \<Rightarrow> string \<Rightarrow> 'w \<Rightarrow> err option \<times> 'w"
  RemoveAll :: "string \<Rightarrow> 'w \<Rightarrow> 'w"
  Remove :: "string \<Rightarrow> 'w \<Rightarrow> 'w"
  GetAppBackup :: "string \<Rightarrow> 'w \<Rightarrow> (err + AppBackup) \<times> 'w"
  UpdateModel :: "AppBackup \<Rightarrow> 'w \<Rightarrow> err option \<times> 'w"

definition ext :: "('w \<Rightarrow> 'r \<times> 'w) \<Rightarrow> 'w state \<Rightarrow> 'r \<times> 'w state" where
  "ext f s = (case f (world s) of (r, w) \<Rightarrow> (r, s\<lparr>world := w\<rparr>))"

definition ext0 :: "('w \<Rightarrow> 'w) \<Rightarrow> 'w state \<Rightarrow> 'w state" where
  "ext0 f s = s\<lparr>world := f (world s)\<rparr>"

definition emit :: "event \<Rightarrow> 'w state \<Rightarrow> 'w state" where
  "emit e s = s\<lparr>trace := trace s @ [e]\<rparr>"

definition say :: "logline \<Rightarrow> 'w state \<Rightarrow> 'w state" where
  "say l s = s\<lparr>logs := logs s @ [l]\<rparr>"

text \<open>\<^verbatim>\<open>%d\<close> of fmt.\<close>

fun decimal :: "nat \<Rightarrow> string" where
  "decimal n = (if n < 10 then [char_of (48 + n)] else decimal (n div 10) @ [char_of (48 + n mod 10)])"

declare decimal.simps [simp del]

definition fmt_d :: "int \<Rightarrow> string" where
  "fmt_d i = (if i < 0 then CHR ''-'' # decimal (nat (- i)) else decimal (nat i))"

section \<open>judgeMetadataVersion\<close>

definition nil_of :: "err + 'a \<Rightarrow> err option" where
  "nil_of r = (case r of Inl e \<Rightarrow> Some e | Inr _ \<Rightarrow> None)"

definition judgeMetadataVersion :: "'w env \<Rightarrow> string \<Rightarrow> string \<times> err option" where
  "judgeMetadataVersion env metadata =
     (if nil_of (Unmarshal_AppSnapshot env metadata) = None then (NewMetadata, None)
      else (let err = nil_of (Unmarshal_Services env metadata) in
            if err = None then ([], err)
            else (OldMetadata, None)))"

section \<open>checkVersionExist\<close>

definition checkVersionExist ::
  "'w env \<Rightarrow> VersionInfo \<Rightarrow> 'w state \<Rightarrow> (bool \<times> err option) \<times> 'w state" where
  "checkVersionExist env version s =
     (if DeliveredType version = ''image'' then
        (let imageInfo = ImageNameHandle env (DeliveredPath version) in
         case ext (NewInsecure env (Host imageInfo) [] []) s of
           (Some e, s1) \<Rightarrow>
             ((False, Some e), say (LogrusErrorf (''new registry client error '' @ e)) s1)
         | (None, s1) \<Rightarrow>
             (case ext (Manifest env (Host imageInfo) (Name imageInfo) (Tag imageInfo)) s1 of
                (Some e, s2) \<Rightarrow>
                  ((False, Some e),
                   say (LogrusErrorf (''get image '' @ DeliveredPath version
                          @ '' manifest info failure, it could be not exist'')) s2)
              | (None, s2) \<Rightarrow> ((True, None), s2)))
      else if DeliveredType version = ''slug'' then
        (case ext (Stat env (DeliveredPath version)) s of
           (StatNotExist, s1) \<Rightarrow> ((False, None), s1)
         | (StatError e, s1) \<Rightarrow> ((False, Some e), s1)
         | (StatOk isDir, s1) \<Rightarrow> (if isDir then ((False, None), s1) else ((True, None), s1)))
      else ((False, Some ''delivered type is invalid''), s))"

section \<open>uploadSlug and uploadImage\<close>

definition remote_slug :: "'w state \<Rightarrow> bool" where
  "remote_slug s \<longleftrightarrow>
     Mode s = ''full-online'' \<and> FTPHost (SlugInfo s) \<noteq> [] \<and> FTPPort (SlugInfo s) \<noteq> []"

definition remote_image :: "'w state \<Rightarrow> bool" where
  "remote_image s \<longleftrightarrow> Mode s = ''full-online'' \<and> HubURL (ImageInfo s) \<noteq> []"

text \<open>\<^verbatim>\<open>defer sFTPClient.Close()\<close>: the session is closed when the function returns.\<close>

definition deferClose :: "'w env \<Rightarrow> 'a \<times> 'w state \<Rightarrow> 'a \<times> 'w state" where
  "deferClose env rs = (case rs of (r, s) \<Rightarrow> (r, ext0 (SFTPClose env) s))"

definition uploadSlug ::
  "'w env \<Rightarrow> RegionServiceSnapshot \<Rightarrow> VersionInfo \<Rightarrow> 'w state \<Rightarrow> err option \<times> 'w state" where
  "uploadSlug env app version s =
     (if remote_slug s then
        (case ext (NewSFTPClient env (FTPUser (SlugInfo s)) (FTPPassword (SlugInfo s))
                     (FTPHost (SlugInfo s)) (FTPPort (SlugInfo s))) s of
           (Some e, s1) \<Rightarrow>
             (Some e, say (LoggerError (Translation env ''create ftp client error'')
                             ''backup_builder'' ''failure'') s1)
         | (None, s1) \<Rightarrow>
             deferClose env
               (let dstDir = SlugInfo_Namespace (SlugInfo s1) @ ''/backup/'' @ GroupID s1 @ ''_''
                      @ Version s1 @ ''/app_'' @ ServiceID app @ ''/'' @ BuildVersion version @ ''.tgz'' in
                case ext (PushFile env (DeliveredPath version) dstDir) s1 of
                  (Some e, s2) \<Rightarrow>
                    (Some e,
                     say (LogrusErrorf (''push  slug file error when backup app , '' @ e))
                       (say (LoggerError (Translation env ''push slug file to sftp server error'')
                               ''backup_builder'' ''failure'') s2))
                | (None, s2) \<Rightarrow>
                    (case ext (GetFileSize env (DeliveredPath version)) s2 of
                       (n, s3) \<Rightarrow>
                         (None,
                          emit (Transferred SlugFile Remote (DeliveredPath version) dstDir (Some n))
                            (s3\<lparr>BackupSize := BackupSize s3 + n\<rparr>)))))
      else
        (let dstDir = SourceDir s @ ''/app_'' @ ServiceID app @ ''/slug_'' @ BuildVersion version @ ''.tgz'';
             s1 = ext0 (CheckAndCreateDir env (filepath_Dir env dstDir)) s in
         case ext (CopyFileWithProgress env (DeliveredPath version) dstDir) s1 of
           (Some e, s2) \<Rightarrow>
             (Some e,
              say (LogrusErrorf (''copy slug file error when backup app, '' @ e))
                (say (LoggerError (Translation env ''push slug file to local dir error'')
                        ''backup_builder'' ''failure'') s2))
         | (None, s2) \<Rightarrow>
             (None, emit (Transferred SlugFile Local (DeliveredPath version) dstDir None) s2)))"

definition uploadImage ::
  "'w env \<Rightarrow> RegionServiceSnapshot \<Rightarrow> VersionInfo \<Rightarrow> 'w state \<Rightarrow> err option \<times> 'w state" where
  "uploadImage env app version s =
     (if remote_image s then
        (case CreateShareImage env version (HubURL (ImageInfo s)) (ImageInfo_Namespace (ImageInfo s))
                (Version s @ ''_backup'') of
           Inl e \<Rightarrow> (Some (''create backup image error '' @ e), s)
         | Inr backupImage \<Rightarrow>
             (case ext (ImagePull env (DeliveredPath version) [] [] 10) s of
                (Inl e, s1) \<Rightarrow> (Some (''pull image when backup error '' @ e), s1)
              | (Inr info_Size, s1) \<Rightarrow>
                  (case ext (ImageTag env (DeliveredPath version) backupImage 1) s1 of
                     (Some e, s2) \<Rightarrow> (Some (''change  image tag when backup error '' @ e), s2)
                   | (None, s2) \<Rightarrow>
                       (case ext ((if IsTrust (ImageInfo s2) then TrustedImagePush env else ImagePush env)
                                    backupImage (HubUser (ImageInfo s2)) (HubPassword (ImageInfo s2)) 10) s2 of
                          (Some e, s3) \<Rightarrow>
                            (Some (''backup image push error '' @ e),
                             say (LoggerError (Translation env ''save image to hub error'')
                                    ''backup_builder'' ''failure'') s3)
                        | (None, s3) \<Rightarrow>
                            (None,
                             emit (Transferred ImageRef Remote (DeliveredPath version) backupImage (Some info_Size))
                               (s3\<lparr>BackupSize := BackupSize s3 + info_Size\<rparr>))))))
      else
        (let dstDir = SourceDir s @ ''/app_'' @ ServiceID app @ ''/image_'' @ BuildVersion version @ ''.tar'';
             s1 = ext0 (CheckAndCreateDir env (filepath_Dir env dstDir)) s in
         case ext (ImageSave env (DeliveredPath version) dstDir) s1 of
           (Some e, s2) \<Rightarrow>
             (Some e,
              say (LogrusErrorf (''save image('' @ DeliveredPath version
                     @ '') to local dir error when backup app, '' @ e))
                (say (LoggerError (Translation env ''save image to local dir error'')
                        ''backup_builder'' ''failure'') s2))
         | (None, s2) \<Rightarrow>
             (None, emit (Transferred ImageRef Local (DeliveredPath version) dstDir None) s2)))"

section \<open>backupServiceInfo\<close>

text \<open>The second \<^verbatim>\<open>if\<close> of the loop body (kind image), then the end of the body.\<close>

definition backupVersion_image ::
  "'w env \<Rightarrow> RegionServiceSnapshot \<Rightarrow> TenantServices \<Rightarrow> VersionInfo \<Rightarrow> int \<Rightarrow> 'w state
     \<Rightarrow> VersionInfo \<times> int \<times> 'w state" where
  "backupVersion_image env app svc version n s =
     (if DeliveredType version = ''image'' \<and> FinalStatus version = ''success'' then
        (case checkVersionExist env version s of
           ((ok, _), s1) \<Rightarrow>
             if \<not> ok then (version\<lparr>FinalStatus := ''lost''\<rparr>, n, s1)
             else
               (case uploadImage env app version s1 of
                  (Some e, s2) \<Rightarrow>
                    (version, n,
                     say (LogrusErrorf (''upload app '' @ ServiceName svc @ '' version ''
                            @ BuildVersion version @ '' image error.'' @ e)) s2)
                | (None, s2) \<Rightarrow> (version, n + 1, s2)))
      else (version, n, s))"

text \<open>The body of the loop over \<^verbatim>\<open>app.Versions\<close>, after the test of the cap.\<close>

definition backupVersion ::
  "'w env \<Rightarrow> RegionServiceSnapshot \<Rightarrow> TenantServices \<Rightarrow> VersionInfo \<Rightarrow> int \<Rightarrow> 'w state
     \<Rightarrow> VersionInfo \<times> int \<times> 'w state" where
  "backupVersion env app svc version n s =
     (if DeliveredType version = ''slug'' \<and> FinalStatus version = ''success'' then
        (case checkVersionExist env version s of
           ((ok, _), s1) \<Rightarrow>
             if \<not> ok then (version\<lparr>FinalStatus := ''lost''\<rparr>, n, s1)
             else
               (case uploadSlug env app version s1 of
                  (Some e, s2) \<Rightarrow>
                    backupVersion_image env app svc version n
                      (say (LogrusErrorf (''upload app '' @ ServiceName svc @ '' version ''
                              @ BuildVersion version @ '' slug file error.'' @ e)) s2)
                | (None, s2) \<Rightarrow> backupVersion_image env app svc version (n + 1) s2))
      else backupVersion_image env app svc version n s)"

text \<open>
  The loop over \<^verbatim>\<open>app.Versions\<close>, started with \<^verbatim>\<open>backupVersionSize\<close> = \<open>n\<close>. It returns:
  whether a nil version was dereferenced, the versions as the loop leaves them, the
  counter and the state. It has no way to return an error.
\<close>

fun backupVersions ::
  "'w env \<Rightarrow> int \<Rightarrow> RegionServiceSnapshot \<Rightarrow> TenantServices \<Rightarrow> VersionInfo option list \<Rightarrow> int
     \<Rightarrow> 'w state \<Rightarrow> bool \<times> VersionInfo option list \<times> int \<times> 'w state" where
  "backupVersions env cap app svc [] n s = (False, [], n, s)"
| "backupVersions env cap app svc (v # vs) n s =
     (if n \<ge> cap then (False, v # vs, n, s)
      else
        (case v of
           None \<Rightarrow> (True, v # vs, n, s)
         | Some version \<Rightarrow>
             (case backupVersion env app svc version n s of
                (version', n', s') \<Rightarrow>
                  (case backupVersions env cap app svc vs n' s' of
                     (p, vs', r) \<Rightarrow> (p, Some version' # vs', r)))))"

definition GetVolumeDir :: "'w env \<Rightarrow> string \<times> string" where
  "GetVolumeDir env =
     (let localPath = Getenv env ''LOCAL_DATA_PATH'';
          sharePath = Getenv env ''SHARE_DATA_PATH'' in
      (if localPath = [] then ''/grlocaldata'' else localPath,
       if sharePath = [] then ''/grdata'' else sharePath))"

text \<open>The loop over \<^verbatim>\<open>app.ServiceVolume\<close>.\<close>

fun backupVolumes ::
  "'w env \<Rightarrow> RegionServiceSnapshot \<Rightarrow> TenantServiceVolume option list \<Rightarrow> 'w state
     \<Rightarrow> outcome \<times> 'w state" where
  "backupVolumes env app [] s = (OK, s)"
| "backupVolumes env app (None # vols) s = (Panic, s)"
| "backupVolumes env app (Some volume # vols) s =
     (let dstDir = SourceDir s @ ''/data_'' @ ServiceID app @ ''/''
            @ filter (\<lambda>c. c \<noteq> CHR ''/'') (VolumeName volume) @ ''.zip'';
          hostPath = HostPath volume in
      if hostPath = [] then backupVolumes env app vols s
      else
        (case ext (DirIsEmpty env hostPath) s of
           (True, s1) \<Rightarrow> backupVolumes env app vols s1
         | (False, s1) \<Rightarrow>
             (case ext (Zip env hostPath dstDir) s1 of
                (Some e, s2) \<Rightarrow>
                  (Error e,
                   say (LogrusErrorf (''backup service('' @ ServiceID app @ '') volume(''
                          @ VolumeName volume @ '') data error.'' @ e))
                     (emit (ZipCall Volume hostPath dstDir (Some e)) s2))
              | (None, s2) \<Rightarrow>
                  backupVolumes env app vols (emit (ZipCall Volume hostPath dstDir None) s2))))"

text \<open>The local \<^verbatim>\<open>serviceVolumeData\<close>: the shared data directory of the service.\<close>

definition serviceVolumeData :: "'w env \<Rightarrow> TenantServices \<Rightarrow> string" where
  "serviceVolumeData env svc =
     path_Join env [snd (GetVolumeDir env), ''tenant'', TenantID svc, ''service'', Service_ServiceID svc]"

text \<open>The persistent data of one service: the all-data bundle, then the volumes.\<close>

definition backupServiceData ::
  "'w env \<Rightarrow> RegionServiceSnapshot \<Rightarrow> TenantServices \<Rightarrow> 'w state \<Rightarrow> outcome \<times> 'w state" where
  "backupServiceData env app svc s =
     (if length (ServiceVolume app) > 0 then
        (let dstDir = SourceDir s @ ''/data_'' @ ''all'' @ ''/'' @ ''data'' @ ''.zip'' in
         case ext (DirIsEmpty env (serviceVolumeData env svc)) s of
           (True, s1) \<Rightarrow> backupVolumes env app (ServiceVolume app) s1
         | (False, s1) \<Rightarrow>
             (case ext (Zip env (serviceVolumeData env svc) dstDir) s1 of
                (Some e, s2) \<Rightarrow>
                  (Error e,
                   say (LogrusErrorf (''backup service('' @ ServiceID app @ '') volume data error.'' @ e))
                     (emit (ZipCall AllData (serviceVolumeData env svc) dstDir (Some e)) s2))
              | (None, s2) \<Rightarrow>
                  backupVolumes env app (ServiceVolume app)
                    (emit (ZipCall AllData (serviceVolumeData env svc) dstDir None) s2)))
      else backupVolumes env app (ServiceVolume app) s)"

text \<open>The body of the loop over \<^verbatim>\<open>serviceInfos\<close>: one service.\<close>

definition backupService ::
  "'w env \<Rightarrow> int \<Rightarrow> RegionServiceSnapshot option \<Rightarrow> 'w state
     \<Rightarrow> outcome \<times> RegionServiceSnapshot option \<times> 'w state" where
  "backupService env cap a s =
     (case a of
        None \<Rightarrow> (Panic, a, s)
      | Some app \<Rightarrow>
          (case Service app of
             None \<Rightarrow> (Panic, a, s)
           | Some svc \<Rightarrow>
               (case backupVersions env cap app svc (Versions app) 0
                       (say (LoggerInfo (''Start backup Application('' @ ServiceAlias svc @ '') runtime'')
                               ''backup_builder'' ''starting'') s) of
                  (p, vs, backupVersionSize, s1) \<Rightarrow>
                    if p then (Panic, Some (app\<lparr>Versions := vs\<rparr>), s1)
                    else if backupVersionSize = 0 then
                      (Error (''Application('' @ ServiceAlias svc @ '') Backup build version failure''),
                       Some (app\<lparr>Versions := vs\<rparr>),
                       say (LoggerError (''Application('' @ ServiceAlias svc
                              @ '') Backup build version failure.'') ''backup_builder'' ''success'') s1)
                    else
                      (let s2 = say (LogrusInfof (''backup app '' @ ServiceName svc @ '' ''
                                       @ fmt_d backupVersionSize @ '' version'')) s1;
                           s3 = say (LoggerInfo (''Complete backup application ('' @ ServiceAlias svc
                                       @ '') runtime '' @ fmt_d backupVersionSize @ '' version'')
                                       ''backup_builder'' ''success'') s2;
                           s4 = say (LoggerInfo (''Start backup application('' @ ServiceAlias svc
                                       @ '') persistent data'') ''backup_builder'' ''starting'') s3 in
                       case backupServiceData env (app\<lparr>Versions := vs\<rparr>) svc s4 of
                         (OK, s5) \<Rightarrow>
                           (OK, Some (app\<lparr>Versions := vs\<rparr>),
                            say (LoggerInfo (''Complete backup application('' @ ServiceAlias svc
                                   @ '') persistent data'') ''backup_builder'' ''success'') s5)
                       | (r, s5) \<Rightarrow> (r, Some (app\<lparr>Versions := vs\<rparr>), s5)))))"

fun backupServiceInfo ::
  "'w env \<Rightarrow> int \<Rightarrow> RegionServiceSnapshot option list \<Rightarrow> 'w state
     \<Rightarrow> outcome \<times> RegionServiceSnapshot option list \<times> 'w state" where
  "backupServiceInfo env cap [] s = (OK, [], s)"
| "backupServiceInfo env cap (a # apps) s =
     (case backupService env cap a s of
        (OK, a', s1) \<Rightarrow>
          (case backupServiceInfo env cap apps s1 of
             (r, apps', s2) \<Rightarrow> (r, a' # apps', s2))
      | (r, a', s1) \<Rightarrow> (r, a' # apps, s1))"

section \<open>backupPluginInfo\<close>

fun backupPlugins ::
  "'w env \<Rightarrow> TenantPluginBuildVersion option list \<Rightarrow> 'w state \<Rightarrow> outcome \<times> 'w state" where
  "backupPlugins env [] s = (OK, s)"
| "backupPlugins env (None # pvs) s = (Panic, s)"
| "backupPlugins env (Some pv # pvs) s =
     (let dstDir = SourceDir s @ ''/plugin_'' @ PluginID pv @ ''/image_'' @ DeployVersion pv @ ''.tar'';
          s1 = ext0 (CheckAndCreateDir env (filepath_Dir env dstDir)) s in
      case ext (ImagePull env (BuildLocalImage pv) [] [] 20) s1 of
        (Inl e, s2) \<Rightarrow>
          (Error e,
           say (LogrusErrorf (''plugin image: '' @ BuildLocalImage pv @ ''; failed to pull image: '' @ e))
             (say (LoggerError (''plugin image: '' @ BuildLocalImage pv @ ''; failed to pull image'')
                     ''backup_builder'' ''failure'') s2))
      | (Inr _, s2) \<Rightarrow>
          (case ext (ImageSave env (BuildLocalImage pv) dstDir) s2 of
             (Some e, s3) \<Rightarrow>
               (Error e,
                say (LogrusErrorf (''plugin image: '' @ BuildLocalImage pv @ ''; failed to save image: '' @ e))
                  (say (LoggerError (Translation env ''save image to local dir error'')
                          ''backup_builder'' ''failure'') s3))
           | (None, s3) \<Rightarrow>
               backupPlugins env pvs (emit (PluginImageSaved (BuildLocalImage pv) dstDir) s3)))"

definition backupPluginInfo :: "'w env \<Rightarrow> AppSnapshot \<Rightarrow> 'w state \<Rightarrow> outcome \<times> 'w state" where
  "backupPluginInfo env appSnapshot s =
     backupPlugins env (PluginBuildVersions appSnapshot)
       (say (LoggerInfo ''Start backup plugin'' ''backup_builder'' ''starting'') s)"

section \<open>updateBackupStatu and Run\<close>

definition updateBackupStatu :: "'w env \<Rightarrow> string \<Rightarrow> 'w state \<Rightarrow> outcome \<times> 'w state" where
  "updateBackupStatu env status s =
     (case ext (GetAppBackup env (BackupID s)) s of
        (Inl e, s1) \<Rightarrow>
          (Error e, say (LogrusErrorf (''update backup group app history failure '' @ e)) s1)
      | (Inr backupstatus, s1) \<Rightarrow>
          (case ext (UpdateModel env
                       (backupstatus\<lparr>Status := status, AppBackup_SourceDir := SourceDir s1,
                          AppBackup_SourceType := SourceType s1, BuckupSize := BackupSize s1\<rparr>)) s1 of
             (Some e, s2) \<Rightarrow> (Error e, s2)
           | (None, s2) \<Rightarrow> (OK, s2)))"

text \<open>
  Lines 170 to 172 of Run: \<^verbatim>\<open>b.SourceDir[:len(b.SourceDir)-2]\<close> after the test
  \<^verbatim>\<open>strings.HasSuffix(b.SourceDir, "/")\<close>. \<open>None\<close>: the slice bound is negative and the
  slice expression panics.
\<close>

definition HasSuffix_slash :: "string \<Rightarrow> bool" where
  "HasSuffix_slash d \<longleftrightarrow> d \<noteq> [] \<and> last d = CHR ''/''"

definition normalizeSourceDir :: "string \<Rightarrow> string option" where
  "normalizeSourceDir d =
     (if HasSuffix_slash d then
        (if int (length d) - 2 < 0 then None else Some (take (nat (int (length d) - 2)) d))
      else Some d)"

text \<open>Run from line 170 on: the archive, the remote push of the archive, the status.\<close>

definition Run_upload :: "'w env \<Rightarrow> 'w state \<Rightarrow> outcome \<times> 'w state" where
  "Run_upload env s =
     (if remote_slug s then
        (let s1 = say (LoggerInfo ''Start uploading backup metadata to the cloud''
                         ''backup_builder'' ''starting'') s in
         case ext (NewSFTPClient env (FTPUser (SlugInfo s1)) (FTPPassword (SlugInfo s1))
                     (FTPHost (SlugInfo s1)) (FTPPort (SlugInfo s1))) s1 of
           (Some e, s2) \<Rightarrow>
             (Error e, say (LoggerError (Translation env ''create ftp client error'')
                              ''backup_builder'' ''failure'') s2)
         | (None, s2) \<Rightarrow>
             deferClose env
               (let dstDir = SlugInfo_Namespace (SlugInfo s2) @ ''/backup/'' @ GroupID s2 @ ''_''
                      @ Version s2 @ ''/metadata_data.zip'' in
                case ext (PushFile env (SourceDir s2) dstDir) s2 of
                  (Some e, s3) \<Rightarrow>
                    (Error e,
                     say (LogrusErrorf (''push  slug file error when backup app , '' @ e))
                       (say (LoggerError (Translation env ''push slug file to sftp server error'')
                               ''backup_builder'' ''failure'') s3))
                | (None, s3) \<Rightarrow>
                    (let s4 = ext0 (Remove env (SourceDir s3)) s3 in
                     updateBackupStatu env ''success''
                       (s4\<lparr>SourceDir := dstDir, SourceType := ''sftp''\<rparr>))))
      else updateBackupStatu env ''success'' s)"

definition Run_archive :: "'w env \<Rightarrow> 'w state \<Rightarrow> outcome \<times> 'w state" where
  "Run_archive env s =
     (case normalizeSourceDir (SourceDir s) of
        None \<Rightarrow> (Panic, s)
      | Some d \<Rightarrow>
          (let s0 = s\<lparr>SourceDir := d\<rparr> in
           case ext (Zip env d (d @ ''.zip'')) s0 of
             (Some e, s1) \<Rightarrow>
               (Error e,
                say (LoggerInfo ''Compressed backup metadata failed'' ''backup_builder'' ''starting'') s1)
           | (None, s1) \<Rightarrow>
               (case ext (GetFileSize env (d @ ''.zip'')) s1 of
                  (n, s2) \<Rightarrow>
                    (let s3 = ext0 (RemoveAll env d)
                                (emit (Archived d (d @ ''.zip'') n) (s2\<lparr>BackupSize := BackupSize s2 + n\<rparr>)) in
                     Run_upload env (s3\<lparr>SourceDir := d @ ''.zip''\<rparr>)))))"

text \<open>The two branches of Run on the metadata version (lines 144 to 168).\<close>

definition Run_old :: "'w env \<Rightarrow> int \<Rightarrow> string \<Rightarrow> 'w state \<Rightarrow> outcome \<times> 'w state" where
  "Run_old env cap metadata s =
     (case Unmarshal_Services env metadata of
        Inl e \<Rightarrow>
          (Error e, say (LoggerInfo ''Failed to unmarshal metadata into RegionServiceSnapshot''
                           ''backup_builder'' ''failure'') s)
      | Inr svcSnapshot \<Rightarrow>
          (case backupServiceInfo env cap svcSnapshot s of
             (OK, _, s1) \<Rightarrow> (OK, s1)
           | (Error e, _, s1) \<Rightarrow>
               (Error e, say (LoggerInfo ''Failed to backup metadata service info''
                                ''backup_builder'' ''failure'') s1)
           | (Panic, _, s1) \<Rightarrow> (Panic, s1)))"

definition Run_new :: "'w env \<Rightarrow> int \<Rightarrow> string \<Rightarrow> 'w state \<Rightarrow> outcome \<times> 'w state" where
  "Run_new env cap metadata s =
     (case Unmarshal_AppSnapshot env metadata of
        Inl e \<Rightarrow>
          (Error e, say (LoggerInfo ''Failed to unmarshal metadata into AppSnapshot''
                           ''backup_builder'' ''failure'') s)
      | Inr appSnapshot \<Rightarrow>
          (case backupServiceInfo env cap (Services appSnapshot) s of
             (OK, services, s1) \<Rightarrow>
               (case backupPluginInfo env (appSnapshot\<lparr>Services := services\<rparr>) s1 of
                  (Error e, s2) \<Rightarrow>
                    (Error e, say (LoggerInfo ''Failed to backup metadata plugin info''
                                     ''backup_builder'' ''failure'') s2)
                | (r, s2) \<Rightarrow> (r, s2))
           | (Error e, _, s1) \<Rightarrow>
               (Error e, say (LoggerInfo ''Failed to backup metadata service info''
                                ''backup_builder'' ''failure'') s1)
           | (Panic, _, s1) \<Rightarrow> (Panic, s1)))"

definition Run :: "'w env \<Rightarrow> int \<Rightarrow> 'w state \<Rightarrow> outcome \<times> 'w state" where
  "Run env cap s =
     (case ext (ReadFile env (SourceDir s @ ''/region_apps_metadata.json'')) s of
        (Inl e, s1) \<Rightarrow> (Error e, s1)
      | (Inr metadata, s1) \<Rightarrow>
          (case judgeMetadataVersion env metadata of
             (metaVersion, Some e) \<Rightarrow>
               (Error e, say (LoggerInfo ''Failed to judge the version of metadata''
                                ''backup_builder'' ''failure'') s1)
           | (metaVersion, None) \<Rightarrow>
               (case (if metaVersion = OldMetadata then Run_old env cap metadata s1
                      else Run_new env cap metadata s1) of
                  (OK, s2) \<Rightarrow> Run_archive env s2
                | (r, s2) \<Rightarrow> (r, s2))))"

section \<open>A concrete environment\<close>

text \<open>
  One instance of the collaborators, used to run the definitions on concrete inputs. Its
  world is a counter of the calls made so far. The blob \<^verbatim>\<open>[]\<close> decodes as the legacy
  list and not as the structured object, the blob \<^verbatim>\<open>{}\<close> decodes as the structured
  snapshot \<open>snap\<close> only, any other blob as neither. What a collaborator answers depends
  on the path or image it is asked about.
\<close>

definition intercalate_slash :: "string list \<Rightarrow> string" where
  "intercalate_slash xs = (case xs of [] \<Rightarrow> [] | x # ys \<Rightarrow> foldl (\<lambda>a b. a @ ''/'' @ b) x ys)"

definition demo :: "AppSnapshot \<Rightarrow> nat env" where
  "demo snap =
     \<lparr> ReadFile = (\<lambda>p w. (if p = ''/backup/legacy/region_apps_metadata.json'' then Inr ''[]''
                            else if p = ''/backup/junk/region_apps_metadata.json'' then Inr ''junk''
                            else Inr ''{}'', Suc w)),
       Unmarshal_AppSnapshot =
         (\<lambda>m. if m = ''{}'' then Inr snap
               else if m = ''[]'' then Inl ''json: cannot unmarshal array into Go value of type exector.AppSnapshot''
               else Inl ''invalid character''),
       Unmarshal_Services =
         (\<lambda>m. if m = ''[]'' then Inr []
               else if m = ''{}'' then Inl ''json: cannot unmarshal object into Go value of type []*exector.RegionServiceSnapshot''
               else Inl ''invalid character''),
       Translation = (\<lambda>m. m),
       Getenv = (\<lambda>k. []),
       path_Join = intercalate_slash,
       filepath_Dir = (\<lambda>p. rev (tl (dropWhile (\<lambda>c. c \<noteq> CHR ''/'') (rev p)))),
       ImageNameHandle = (\<lambda>p. \<lparr>Host = takeWhile (\<lambda>c. c \<noteq> CHR ''/'') p, Name = p, Tag = ''latest''\<rparr>),
       NewInsecure = (\<lambda>h u p w. (if h = ''badhost'' then Some ''dial tcp: no such host'' else None, Suc w)),
       Manifest = (\<lambda>h n t w. (if n = ''hub/gone'' then Some ''manifest unknown'' else None, Suc w)),
       Stat = (\<lambda>p w. (if p = ''/missing'' then StatNotExist
                        else if p = ''/denied'' then StatError ''permission denied''
                        else StatOk (p = ''/dir''), Suc w)),
       NewSFTPClient = (\<lambda>u p h q w. (None, Suc w)),
       SFTPClose = Suc,
       PushFile = (\<lambda>src dst w. (if src = ''/unpushable'' then Some ''connection lost'' else None, Suc w)),
       GetFileSize = (\<lambda>p w. (if p = ''/backup/a.zip'' then 7 else 5, Suc w)),
       CheckAndCreateDir = (\<lambda>d. Suc),
       CopyFileWithProgress = (\<lambda>src dst w. (if src = ''/unreadable'' then Some ''read error'' else None, Suc w)),
       CreateShareImage = (\<lambda>v hub ns tag. Inr (hub @ ''/'' @ ns @ ''/'' @ BuildVersion v @ '':'' @ tag)),
       ImagePull = (\<lambda>i u p t w. (if i = ''hub/nopull'' then Inl ''pull access denied'' else Inr 11, Suc w)),
       ImageTag = (\<lambda>src dst t w. (None, Suc w)),
       TrustedImagePush = (\<lambda>i u p t w. (None, Suc w)),
       ImagePush = (\<lambda>i u p t w. (if i = ''hub.example/ns/nopush:v1_backup'' then Some ''denied'' else None, Suc w)),
       ImageSave = (\<lambda>i dst w. (if i = ''hub/nosave'' then Some ''no space left on device'' else None, Suc w)),
       DirIsEmpty = (\<lambda>p w. (p = ''/empty'', Suc w)),
       Zip = (\<lambda>src dst w. (if src = ''/unzippable'' then Some ''zip failed'' else None, Suc w)),
       RemoveAll = (\<lambda>p. Suc),
       Remove = (\<lambda>p. Suc),
       GetAppBackup = (\<lambda>i w. (Inr \<lparr>Status = ''starting'', AppBackup_SourceDir = [],
                                    AppBackup_SourceType = [], BuckupSize = 0\<rparr>, Suc w)),
       UpdateModel = (\<lambda>r w. (None, Suc w)) \<rparr>"

definition demo_task :: "string \<Rightarrow> string \<Rightarrow> nat state" where
  "demo_task mode dir =
     \<lparr> GroupID = ''g1'', ServiceIDs = [''s1''], Mode = mode, Version = ''v1'', EventID = ''e1'',
       SlugInfo = \<lparr>SlugInfo_Namespace = ''ns'', FTPHost = ''ftp.example'', FTPPort = ''22'',
                    FTPUser = ''u'', FTPPassword = ''p''\<rparr>,
       ImageInfo = \<lparr>HubURL = ''hub.example'', HubUser = ''u'', HubPassword = ''p'',
                     ImageInfo_Namespace = ''ns'', IsTrust = False\<rparr>,
       SourceDir = dir, SourceType = ''local'', BackupID = ''b1'', BackupSize = 0,
       world = 0, trace = [], logs = [] \<rparr>"

definition demo_version :: "string \<Rightarrow> string \<Rightarrow> string \<Rightarrow> VersionInfo" where
  "demo_version k p b = \<lparr>BuildVersion = b, DeliveredType = k, DeliveredPath = p, FinalStatus = ''success''\<rparr>"

definition tenant_service :: TenantServices where
  "tenant_service =
     \<lparr>TenantID = ''t1'', Service_ServiceID = ''s1'', ServiceAlias = ''gr1'', ServiceName = ''web''\<rparr>"

definition demo_service ::
  "VersionInfo option list \<Rightarrow> TenantServiceVolume option list \<Rightarrow> RegionServiceSnapshot" where
  "demo_service vs vols =
     \<lparr>ServiceID = ''s1'', Service = Some tenant_service, ServiceVolume = vols, Versions = vs\<rparr>"

definition no_snapshot :: AppSnapshot where
  "no_snapshot = \<lparr>Services = [], PluginBuildVersions = []\<rparr>"

definition demo_plugin :: "string \<Rightarrow> string \<Rightarrow> TenantPluginBuildVersion" where
  "demo_plugin p i = \<lparr>PluginID = p, DeployVersion = ''d1'', BuildLocalImage = i\<rparr>"

definition demo_volume :: "string \<Rightarrow> string \<Rightarrow> TenantServiceVolume" where
  "demo_volume n h = \<lparr>VolumeName = n, HostPath = h\<rparr>"

definition good_slug :: VersionInfo where
  "good_slug = demo_version ''slug'' ''/slug1'' ''b1''"

definition good_image :: VersionInfo where
  "good_image = demo_version ''image'' ''hub/img'' ''b2''"

definition missing_slug :: VersionInfo where
  "missing_slug = demo_version ''slug'' ''/missing'' ''b3''"

definition unreadable_slug :: VersionInfo where
  "unreadable_slug = demo_version ''slug'' ''/unreadable'' ''b4''"

definition gone_image :: VersionInfo where
  "gone_image = demo_version ''image'' ''hub/gone'' ''b5''"

definition one_slug_snapshot :: AppSnapshot where
  "one_slug_snapshot = \<lparr>Services = [Some (demo_service [Some good_slug] [])], PluginBuildVersions = []\<rparr>"

definition two_kinds_snapshot :: AppSnapshot where
  "two_kinds_snapshot =
     \<lparr>Services = [Some (demo_service [Some good_slug, Some good_image] [])], PluginBuildVersions = []\<rparr>"

definition plugin_snapshot :: AppSnapshot where
  "plugin_snapshot =
     \<lparr>Services = [Some (demo_service [Some good_slug] [])],
      PluginBuildVersions = [Some (demo_plugin ''p1'' ''hub/plugin1''), Some (demo_plugin ''p2'' ''hub/nopull''),
                             Some (demo_plugin ''p3'' ''hub/plugin3'')]\<rparr>"

definition offline :: "nat state" where
  "offline = demo_task ''full-offline'' ''/backup/a''"

definition online :: "nat state" where
  "online = demo_task ''full-online'' ''/backup/a''"

definition four_versions :: "VersionInfo option list" where
  "four_versions =
     [Some good_slug, Some missing_slug, Some (demo_version ''slug'' ''/missing'' ''b8''),
      Some (demo_version ''slug'' ''/missing'' ''b9'')]"

definition volume_app :: RegionServiceSnapshot where
  "volume_app =
     demo_service [Some good_slug] [Some (demo_volume ''/data'' ''/mnt/data''), Some (demo_volume ''conf'' [])]"

section \<open>Reading the trace\<close>

text \<open>
  What an event added to BackupSize; the events a run appended to the trace; the
  predicates the statements below use.
\<close>

fun counted :: "event \<Rightarrow> 64 word" where
  "counted (Transferred k d src dst (Some n)) = n"
| "counted (Archived src dst n) = n"
| "counted e = 0"


fun is_archive :: "event \<Rightarrow> bool" where
  "is_archive (Archived src dst n) = True"
| "is_archive e = False"



fun is_all_data :: "event \<Rightarrow> bool" where
  "is_all_data (ZipCall AllData src dst r) = True"
| "is_all_data e = False"

definition has_host_path :: "TenantServiceVolume option \<Rightarrow> bool" where
  "has_host_path v = (case v of None \<Rightarrow> False | Some volume \<Rightarrow> HostPath volume \<noteq> [])"

definition volume_dst :: "string \<Rightarrow> RegionServiceSnapshot \<Rightarrow> TenantServiceVolume \<Rightarrow> string" where
  "volume_dst dir app volume =
     dir @ ''/data_'' @ ServiceID app @ ''/'' @ filter (\<lambda>c. c \<noteq> CHR ''/'') (VolumeName volume) @ ''.zip''"

fun volume_zip_of ::
  "string \<Rightarrow> RegionServiceSnapshot \<Rightarrow> TenantServiceVolume option list \<Rightarrow> event \<Rightarrow> bool" where
  "volume_zip_of dir app vols (ZipCall Volume src dst r) =
     (src \<noteq> [] \<and> (src, dst) \<in> set [(HostPath volume, volume_dst dir app volume). Some volume \<leftarrow> vols])"
| "volume_zip_of dir app vols e = False"

definition added :: "'w state \<Rightarrow> 'w state \<Rightarrow> event list" where
  "added s s' = drop (length (trace s)) (trace s')"

text \<open>\<open>steps s new s'\<close>: from \<open>s\<close> to \<open>s'\<close> the trace grew by \<open>new\<close> and BackupSize by
  what \<open>new\<close> counts. \<open>quiet\<close>: the same for some events, none of them the archive.\<close>

definition steps :: "'w state \<Rightarrow> event list \<Rightarrow> 'w state \<Rightarrow> bool" where
  "steps s new s' \<longleftrightarrow>
     trace s' = trace s @ new \<and> BackupSize s' = BackupSize s + sum_list (map counted new)"




text \<open>What makes the backup of one plugin record fail: the error of the pull of its
  image or, after a pull that succeeded, of its export.\<close>

definition plugin_failure :: "'w env \<Rightarrow> TenantPluginBuildVersion \<Rightarrow> 'w state \<Rightarrow> err option" where
  "plugin_failure env pv s =
     (let dstDir = SourceDir s @ ''/plugin_'' @ PluginID pv @ ''/image_'' @ DeployVersion pv @ ''.tar'';
          w1 = CheckAndCreateDir env (filepath_Dir env dstDir) (world s) in
      case ImagePull env (BuildLocalImage pv) [] [] 20 w1 of
        (Inl e, w2) \<Rightarrow> Some e
      | (Inr _, w2) \<Rightarrow> fst (ImageSave env (BuildLocalImage pv) dstDir w2))"

lemmas machine_defs = ext_def ext0_def emit_def say_def deferClose_def

lemmas demo_defs = demo_def demo_task_def demo_version_def demo_service_def tenant_service_def no_snapshot_def
  intercalate_slash_def

lemmas run_defs = Run_def judgeMetadataVersion_def nil_of_def NewMetadata_def OldMetadata_def
  Run_new_def Run_old_def backupPluginInfo_def Run_archive_def normalizeSourceDir_def
  HasSuffix_slash_def Run_upload_def updateBackupStatu_def remote_slug_def

lemmas loop_defs = backupService_def backupVersion_def backupVersion_image_def checkVersionExist_def
  uploadSlug_def uploadImage_def remote_image_def backupServiceData_def serviceVolumeData_def
  GetVolumeDir_def Let_def

lemmas more_demo_defs = demo_plugin_def demo_volume_def one_slug_snapshot_def two_kinds_snapshot_def
  plugin_snapshot_def good_slug_def good_image_def missing_slug_def unreadable_slug_def gone_image_def
  offline_def online_def volume_app_def four_versions_def

section \<open>Lemmas on the machine and its loops\<close>





lemma steps_ext0: "steps s new s' \<Longrightarrow> steps s new (ext0 f s')"
  by (simp add: steps_def ext0_def)

































lemma backupVersion_not_ok:
  assumes "FinalStatus v = ''success''"
      and "DeliveredType v = ''slug'' \<or> DeliveredType v = ''image''"
      and "checkVersionExist env v s = ((False, eo), s1)"
  shows "backupVersion env app svc v n s = (v\<lparr>FinalStatus := ''lost''\<rparr>, n, s1)"
  using assms by (auto simp: backupVersion_def backupVersion_image_def)

lemma backupVersion_upload_failed:
  assumes "FinalStatus v = ''success''"
      and "checkVersionExist env v s = ((True, eo), s1)"
      and "DeliveredType v = ''slug'' \<and> uploadSlug env app v s1 = (Some e, s2)
           \<or> DeliveredType v = ''image'' \<and> uploadImage env app v s1 = (Some e, s2)"
  shows "backupVersion env app svc v n s =
           (v, n, say (LogrusErrorf (''upload app '' @ ServiceName svc @ '' version '' @ BuildVersion v
                   @ (if DeliveredType v = ''slug'' then '' slug file error.'' else '' image error.'') @ e)) s2)"
  using assms by (auto simp: backupVersion_def backupVersion_image_def)

lemma backupVersions_step:
  assumes "n < cap"
  shows "backupVersions env cap app svc (Some v # vs) n s =
           (case backupVersion env app svc v n s of
              (v', n', s') \<Rightarrow>
                (case backupVersions env cap app svc vs n' s' of (p, vs', r) \<Rightarrow> (p, Some v' # vs', r)))"
  using assms by simp

lemma backupServiceInfo_append:
  assumes "backupServiceInfo env cap pre s = (OK, pre', s1)"
  shows "backupServiceInfo env cap (pre @ rest) s =
           (case backupServiceInfo env cap rest s1 of (r, rest', s2) \<Rightarrow> (r, pre' @ rest', s2))"
  using assms
proof (induction pre arbitrary: s pre')
  case Nil
  then show ?case by (auto split: prod.splits)
next
  case (Cons a pre)
  obtain r1 a1 sa where b: "backupService env cap a s = (r1, a1, sa)"
    by (metis surj_pair)
  obtain r2 pre2 sb where i: "backupServiceInfo env cap pre sa = (r2, pre2, sb)"
    by (metis surj_pair)
  from Cons.prems b i have ok: "r1 = OK" "r2 = OK" "pre' = a1 # pre2" "sb = s1"
    by (cases r1; auto)+
  from Cons.IH [of sa pre2] i ok
  have "backupServiceInfo env cap (pre @ rest) sa =
          (case backupServiceInfo env cap rest s1 of (r, rest', s2) \<Rightarrow> (r, pre2 @ rest', s2))"
    by simp
  with b ok show ?case
    by (auto split: prod.splits)
qed

lemma backupPlugins_append:
  assumes "backupPlugins env pre s = (OK, s1)"
  shows "backupPlugins env (pre @ rest) s = backupPlugins env rest s1"
  using assms
proof (induction env pre s rule: backupPlugins.induct)
  case (1 env s)
  then show ?case by simp
next
  case (2 env pvs s)
  then show ?case by simp
next
  case (3 env pv pvs s)
  then show ?case
    by (auto simp: Let_def split: prod.splits sum.splits option.splits)
qed

lemma backupPlugins_failure:
  assumes "plugin_failure env pv s = Some e"
  shows "backupPlugins env (Some pv # post) s = (Error e, snd (backupPlugins env [Some pv] s))"
  using assms
  by (auto simp: plugin_failure_def Let_def ext_def ext0_def split: prod.splits sum.splits option.splits)

lemma has_host_path_Some: "has_host_path (Some volume) \<longleftrightarrow> HostPath volume \<noteq> []"
  by (simp add: has_host_path_def)

lemma volume_zip_of_Cons:
  "volume_zip_of dir app vols e \<Longrightarrow> volume_zip_of dir app (v # vols) e"
  by (cases "(dir, app, vols, e)" rule: volume_zip_of.cases) (auto split: option.splits)

lemma backupVolumes_events:
  assumes "backupVolumes env app vols s = (r, s')"
  shows "\<exists>new. trace s' = trace s @ new
           \<and> list_all (volume_zip_of (SourceDir s) app vols) new
           \<and> length new \<le> length (filter has_host_path vols)"
  using assms
proof (induction env app vols s arbitrary: r s' rule: backupVolumes.induct)
  case (1 env app s)
  then show ?case by simp
next
  case (2 env app vols s)
  then show ?case by simp
next
  case (3 env app volume vols s)
  let ?dst = "SourceDir s @ ''/data_'' @ ServiceID app @ ''/''
            @ filter (\<lambda>c. c \<noteq> CHR ''/'') (VolumeName volume) @ ''.zip''"
  have mono: "list_all (volume_zip_of (SourceDir s) app (Some volume # vols)) new"
    if "list_all (volume_zip_of (SourceDir s) app vols) new" for new
    using that by (auto simp: list_all_iff intro: volume_zip_of_Cons)
  show ?case
  proof (cases "HostPath volume = []")
    case True
    with "3.prems" have "backupVolumes env app vols s = (r, s')"
      by simp
    from "3.IH"(1) [OF refl refl True this] obtain new where
      "trace s' = trace s @ new" "list_all (volume_zip_of (SourceDir s) app vols) new"
      "length new \<le> length (filter has_host_path vols)"
      by blast
    with True show ?thesis
      by (auto simp: has_host_path_Some intro!: exI [of _ new] mono)
  next
    case False
    obtain b s1 where d: "ext (DirIsEmpty env (HostPath volume)) s = (b, s1)"
      by (metis surj_pair)
    then have s1: "trace s1 = trace s" "SourceDir s1 = SourceDir s"
      by (auto simp: ext_def split: prod.splits)
    show ?thesis
    proof (cases b)
      case True
      with "3.prems" False d have "backupVolumes env app vols s1 = (r, s')"
        by (simp add: Let_def)
      from "3.IH"(2) [OF refl refl False d [symmetric] _ this] True s1 obtain new where
        "trace s' = trace s @ new" "list_all (volume_zip_of (SourceDir s) app vols) new"
        "length new \<le> length (filter has_host_path vols)"
        by auto
      then show ?thesis
        by (auto simp: has_host_path_Some intro!: exI [of _ new] mono)
    next
      case nb: False
      obtain z s2 where z: "ext (Zip env (HostPath volume) ?dst) s1 = (z, s2)"
        by (metis surj_pair)
      then have s2: "trace s2 = trace s" "SourceDir s2 = SourceDir s"
        using s1 by (auto simp: ext_def split: prod.splits)
      have ev: "volume_zip_of (SourceDir s) app (Some volume # vols) (ZipCall Volume (HostPath volume) ?dst z)"
        using False by (simp add: volume_dst_def)
      show ?thesis
      proof (cases z)
        case None
        let ?s3 = "emit (ZipCall Volume (HostPath volume) ?dst None) s2"
        from "3.prems" False d nb z None have "backupVolumes env app vols ?s3 = (r, s')"
          by (simp add: Let_def)
        from "3.IH"(3) [OF refl refl False d [symmetric] _ z [symmetric] None this] nb s2 obtain new where
          new: "trace s' = trace s @ ZipCall Volume (HostPath volume) ?dst None # new"
          "list_all (volume_zip_of (SourceDir s) app vols) new"
          "length new \<le> length (filter has_host_path vols)"
          by (auto simp: emit_def)
        with ev None False show ?thesis
          by (auto simp: has_host_path_Some
              intro!: exI [of _ "ZipCall Volume (HostPath volume) ?dst None # new"] mono)
      next
        case (Some e)
        with "3.prems" False d nb z s2
        have "trace s' = trace s @ [ZipCall Volume (HostPath volume) ?dst z]"
          by (auto simp: Let_def emit_def say_def)
        with ev False show ?thesis
          by (auto simp: has_host_path_Some intro!: exI [of _ "[ZipCall Volume (HostPath volume) ?dst z]"])
      qed
    qed
  qed
qed

lemma volume_zip_not_all_data: "volume_zip_of dir app vols e \<Longrightarrow> \<not> is_all_data e"
  by (cases "(dir, app, vols, e)" rule: volume_zip_of.cases) auto

lemma pair_collapse: "fst x = a \<Longrightarrow> x = (a, snd x)"
  by (cases x) auto

lemma triple_collapse: "fst x = a \<Longrightarrow> x = (a, fst (snd x), snd (snd x))"
  by (cases x) auto

lemma quad_collapse:
  "fst x = a \<Longrightarrow> fst (snd (snd x)) = c \<Longrightarrow> x = (a, fst (snd x), c, snd (snd (snd x)))"
  by (cases x) auto


section \<open>C1: the classifier on a legacy blob\<close>

text \<open>
  C1 says that a blob which fails the structured decode and passes the legacy decode
  is classified OldMetadata with no error, and that a blob which passes neither gives an
  error. The code tests \<^verbatim>\<open>err == nil\<close> after the legacy decode where it means
  \<^verbatim>\<open>err != nil\<close>: on the legacy blob \<^verbatim>\<open>[]\<close> it returns the empty string with a nil
  error, Run then takes the structured branch and fails on the structured decode; on a
  blob that is neither it returns OldMetadata with a nil error; and it returns no error
  on any blob.
\<close>

theorem judgeMetadataVersion_legacy_blob:
  "Unmarshal_Services (demo snap) ''[]'' = Inr []
   \<and> judgeMetadataVersion (demo snap) ''[]'' = ([], None)
   \<and> fst (Run (demo snap) maxBackupVersionSize (demo_task ''full-offline'' ''/backup/legacy''))
       = Error ''json: cannot unmarshal array into Go value of type exector.AppSnapshot''
   \<and> Unmarshal_AppSnapshot (demo snap) ''junk'' = Inl ''invalid character''
   \<and> Unmarshal_Services (demo snap) ''junk'' = Inl ''invalid character''
   \<and> judgeMetadataVersion (demo snap) ''junk'' = (OldMetadata, None)
   \<and> snd (judgeMetadataVersion env metadata) = None"
  by (simp add: run_defs machine_defs demo_defs maxBackupVersionSize_def Let_def split: sum.split)

section \<open>C2: the bundles of persistent data\<close>

text \<open>
  C2 as stated fails on the code: for a service that declares no volume the code
  archives nothing, its guard is \<^verbatim>\<open>len(app.ServiceVolume) > 0\<close>. At the snapshot of
  one service with one good slug version, no volume and a shared data directory that is
  not empty, Run succeeds and no all-data bundle is made.
\<close>

theorem no_volumes_no_bundle:
  "ServiceVolume (demo_service [Some good_slug] []) = []
   \<and> Services one_slug_snapshot = [Some (demo_service [Some good_slug] [])]
   \<and> fst (DirIsEmpty (demo one_slug_snapshot) (serviceVolumeData (demo one_slug_snapshot) tenant_service) 0) = False
   \<and> fst (Run (demo one_slug_snapshot) 3 offline) = OK
   \<and> trace (snd (Run (demo one_slug_snapshot) 3 offline))
       = [Transferred SlugFile Local ''/slug1'' ''/backup/a/app_s1/slug_b1.tgz'' None,
          Archived ''/backup/a'' ''/backup/a.zip'' 7]
   \<and> filter is_all_data (trace (snd (Run (demo one_slug_snapshot) 3 offline))) = []"
  by (simp add: demo_defs more_demo_defs loop_defs machine_defs run_defs)

text \<open>
  C2, amended. Whatever the persistent-data step of a service returns:
  a service that declares no volume gets no bundle, the step does nothing;
  a service that declares at least one volume gets exactly one all-data zip call, on its
  shared data directory and to \<^verbatim>\<open>{SourceDir}/data_all/data.zip\<close>, skipped only when
  that directory is empty at that moment;
  every other zip call of the step is the bundle of a declared volume whose host path is
  not the empty string, to the destination derived from that volume's name, and there
  are at most as many of them as there are such volumes: a declared volume with an empty
  host path produces no bundle.
\<close>

theorem data_bundles:
  assumes "backupServiceData env app svc s = (r, s')"
  shows "(ServiceVolume app = [] \<longrightarrow> r = OK \<and> s' = s)
       \<and> (ServiceVolume app \<noteq> [] \<longrightarrow>
            filter is_all_data (added s s') =
              (if fst (DirIsEmpty env (serviceVolumeData env svc) (world s)) then []
               else [ZipCall AllData (serviceVolumeData env svc) (SourceDir s @ ''/data_all/data.zip'')
                       (fst (Zip env (serviceVolumeData env svc) (SourceDir s @ ''/data_all/data.zip'')
                               (snd (DirIsEmpty env (serviceVolumeData env svc) (world s)))))]))
       \<and> list_all (volume_zip_of (SourceDir s) app (ServiceVolume app))
            (filter (\<lambda>e. \<not> is_all_data e) (added s s'))
       \<and> length (filter (\<lambda>e. \<not> is_all_data e) (added s s'))
            \<le> length (filter has_host_path (ServiceVolume app))"
proof (cases "ServiceVolume app = []")
  case True
  with assms show ?thesis
    by (simp add: backupServiceData_def added_def)
next
  case False
  let ?src = "serviceVolumeData env svc"
  let ?dst = "SourceDir s @ ''/data_all/data.zip''"
  let ?P = "volume_zip_of (SourceDir s) app (ServiceVolume app)"
  obtain b w1 where dw: "DirIsEmpty env ?src (world s) = (b, w1)"
    by (metis surj_pair)
  then have d: "ext (DirIsEmpty env ?src) s = (b, s\<lparr>world := w1\<rparr>)"
    by (simp add: ext_def)
  have filt: "filter is_all_data new = [] \<and> filter (\<lambda>e. \<not> is_all_data e) new = new"
    if "list_all ?P new" for new
    using that by (induction new) (auto dest: volume_zip_not_all_data)
  show ?thesis
  proof (cases b)
    case True
    with assms False d have "backupVolumes env app (ServiceVolume app) (s\<lparr>world := w1\<rparr>) = (r, s')"
      by (simp add: backupServiceData_def Let_def)
    from backupVolumes_events [OF this] obtain new where
      new: "trace s' = trace s @ new" "list_all ?P new"
      "length new \<le> length (filter has_host_path (ServiceVolume app))"
      by auto
    then have "added s s' = new"
      by (simp add: added_def)
    with new filt [OF new(2)] False True dw show ?thesis
      by simp
  next
    case nb: False
    obtain z w2 where zw: "Zip env ?src ?dst w1 = (z, w2)"
      by (metis surj_pair)
    then have z: "ext (Zip env ?src ?dst) (s\<lparr>world := w1\<rparr>) = (z, s\<lparr>world := w2\<rparr>)"
      by (simp add: ext_def)
    show ?thesis
    proof (cases z)
      case None
      let ?s3 = "emit (ZipCall AllData ?src ?dst None) (s\<lparr>world := w2\<rparr>)"
      from assms False d nb z None have "backupVolumes env app (ServiceVolume app) ?s3 = (r, s')"
        by (simp add: backupServiceData_def Let_def)
      from backupVolumes_events [OF this] obtain new where
        new: "trace s' = trace s @ ZipCall AllData ?src ?dst None # new" "list_all ?P new"
        "length new \<le> length (filter has_host_path (ServiceVolume app))"
        by (auto simp: emit_def)
      then have "added s s' = ZipCall AllData ?src ?dst None # new"
        by (simp add: added_def)
      with new filt [OF new(2)] False nb dw zw None show ?thesis
        by simp
    next
      case (Some e)
      with assms False d nb z
      have "trace s' = trace s @ [ZipCall AllData ?src ?dst z]"
        by (auto simp: backupServiceData_def Let_def emit_def say_def)
      then have "added s s' = [ZipCall AllData ?src ?dst z]"
        by (simp add: added_def)
      with False nb dw zw show ?thesis
        by simp
    qed
  qed
qed

theorem data_bundles_witness:
  "ServiceVolume volume_app \<noteq> []
   \<and> fst (backupServiceData (demo no_snapshot) volume_app tenant_service offline) = OK
   \<and> filter is_all_data (added offline (snd (backupServiceData (demo no_snapshot) volume_app tenant_service offline)))
       = [ZipCall AllData ''/grdata/tenant/t1/service/s1'' ''/backup/a/data_all/data.zip'' None]
   \<and> length (filter (\<lambda>e. \<not> is_all_data e)
        (added offline (snd (backupServiceData (demo no_snapshot) volume_app tenant_service offline)))) \<le> 1"
proof -
  let ?R = "backupServiceData (demo no_snapshot) volume_app tenant_service offline"
  have e: "ServiceVolume volume_app \<noteq> []" "fst ?R = OK"
    "length (filter has_host_path (ServiceVolume volume_app)) = 1"
    "fst (DirIsEmpty (demo no_snapshot) ''/grdata/tenant/t1/service/s1'' (world offline)) = False"
    "serviceVolumeData (demo no_snapshot) tenant_service = ''/grdata/tenant/t1/service/s1''"
    "SourceDir offline @ ''/data_all/data.zip'' = ''/backup/a/data_all/data.zip''"
    "fst (Zip (demo no_snapshot) ''/grdata/tenant/t1/service/s1'' ''/backup/a/data_all/data.zip''
            (snd (DirIsEmpty (demo no_snapshot) ''/grdata/tenant/t1/service/s1'' (world offline)))) = None"
    by (simp_all add: demo_defs more_demo_defs loop_defs machine_defs has_host_path_def)
  have h: "?R = (OK, snd ?R)"
    using e(2) by (rule pair_collapse)
  from data_bundles [OF h] e(1)
  have a: "filter is_all_data (added offline (snd ?R)) =
              (if fst (DirIsEmpty (demo no_snapshot) (serviceVolumeData (demo no_snapshot) tenant_service) (world offline)) then []
               else [ZipCall AllData (serviceVolumeData (demo no_snapshot) tenant_service) (SourceDir offline @ ''/data_all/data.zip'')
                       (fst (Zip (demo no_snapshot) (serviceVolumeData (demo no_snapshot) tenant_service) (SourceDir offline @ ''/data_all/data.zip'')
                               (snd (DirIsEmpty (demo no_snapshot) (serviceVolumeData (demo no_snapshot) tenant_service) (world offline)))))])"
    and b: "length (filter (\<lambda>e. \<not> is_all_data e) (added offline (snd ?R)))
            \<le> length (filter has_host_path (ServiceVolume volume_app))"
    by blast+
  have "filter is_all_data (added offline (snd ?R))
       = [ZipCall AllData ''/grdata/tenant/t1/service/s1'' ''/backup/a/data_all/data.zip'' None]"
    using a by (simp only: e if_False)
  with b e show ?thesis
    by (simp only: simp_thms)
qed

section \<open>C3: the normalisation of the source directory\<close>

text \<open>
  C3 says that Run strips exactly one trailing separator: a source directory ending in
  \<^verbatim>\<open>/\<close> loses its final character only. The code slices
  \<^verbatim>\<open>b.SourceDir[:len(b.SourceDir)-2]\<close>: it removes the separator and the character
  before it, so \<^verbatim>\<open>/grdata/backup/\<close> becomes \<^verbatim>\<open>/grdata/backu\<close>, and on the directory
  \<^verbatim>\<open>/\<close> the slice bound is -1 and the slice panics.
\<close>

theorem normalizeSourceDir_strips_two:
  "normalizeSourceDir ''/grdata/backup/'' = Some ''/grdata/backu''
   \<and> normalizeSourceDir (d @ [c, CHR ''/'']) = Some d
   \<and> normalizeSourceDir ''/'' = None"
  by (simp add: normalizeSourceDir_def HasSuffix_slash_def)

section \<open>C4: what BackupSize adds up\<close>




section \<open>C5: the cap on the versions of a service\<close>




section \<open>C6: a service with no transferred version\<close>

text \<open>
  C6. If the services before \<open>app\<close> were backed up without error and the walk over the
  versions of \<open>app\<close> ends with the counter at 0, then backupServiceInfo returns the error
  \<^verbatim>\<open>Application({ServiceAlias}) Backup build version failure\<close>, which names the
  service; the services after \<open>app\<close> are returned as they were, and the final state is the
  state after the walk plus the one log line of the failure: no later service is
  processed.
\<close>

theorem no_version_aborts:
  assumes "backupServiceInfo env cap pre s = (OK, pre', s1)"
      and "Service app = Some svc"
      and "backupVersions env cap app svc (Versions app) 0
             (say (LoggerInfo (''Start backup Application('' @ ServiceAlias svc @ '') runtime'')
                     ''backup_builder'' ''starting'') s1) = (False, vs, 0, s2)"
  shows "backupServiceInfo env cap (pre @ Some app # post) s =
           (Error (''Application('' @ ServiceAlias svc @ '') Backup build version failure''),
            pre' @ Some (app\<lparr>Versions := vs\<rparr>) # post,
            say (LoggerError (''Application('' @ ServiceAlias svc @ '') Backup build version failure.'')
                   ''backup_builder'' ''success'') s2)"
proof -
  from assms(2,3)
  have "backupService env cap (Some app) s1 =
          (Error (''Application('' @ ServiceAlias svc @ '') Backup build version failure''),
           Some (app\<lparr>Versions := vs\<rparr>),
           say (LoggerError (''Application('' @ ServiceAlias svc @ '') Backup build version failure.'')
                  ''backup_builder'' ''success'') s2)"
    by (simp add: backupService_def)
  then show ?thesis
    by (simp add: backupServiceInfo_append [OF assms(1)])
qed

theorem no_version_aborts_witness:
  "fst (backupServiceInfo (demo no_snapshot) 3 [Some (demo_service [Some good_slug] [])] offline) = OK
   \<and> Service (demo_service [Some missing_slug] []) = Some tenant_service
   \<and> fst (snd (snd (backupVersions (demo no_snapshot) 3 (demo_service [Some missing_slug] []) tenant_service
        (Versions (demo_service [Some missing_slug] [])) 0
        (say (LoggerInfo (''Start backup Application('' @ ServiceAlias tenant_service @ '') runtime'')
                ''backup_builder'' ''starting'')
           (snd (snd (backupServiceInfo (demo no_snapshot) 3 [Some (demo_service [Some good_slug] [])] offline))))))) = 0
   \<and> fst (backupServiceInfo (demo no_snapshot) 3
        ([Some (demo_service [Some good_slug] [])] @ Some (demo_service [Some missing_slug] [])
           # [Some (demo_service [Some good_image] [])]) offline)
       = Error (''Application('' @ ServiceAlias tenant_service @ '') Backup build version failure'')"
proof -
  let ?D = "demo no_snapshot"
  let ?pre = "[Some (demo_service [Some good_slug] [])]"
  let ?app = "demo_service [Some missing_slug] []"
  let ?P = "backupServiceInfo ?D 3 ?pre offline"
  let ?V = "backupVersions ?D 3 ?app tenant_service (Versions ?app) 0
        (say (LoggerInfo (''Start backup Application('' @ ServiceAlias tenant_service @ '') runtime'')
                ''backup_builder'' ''starting'') (snd (snd ?P)))"
  have e1: "fst ?P = OK"
    by (simp add: demo_defs more_demo_defs loop_defs machine_defs remote_slug_def)
  have e2: "Service ?app = Some tenant_service"
    by (simp add: demo_defs)
  have e3: "fst ?V = False \<and> fst (snd (snd ?V)) = 0"
    by (simp add: demo_defs more_demo_defs loop_defs machine_defs remote_slug_def)
  have h1: "?P = (OK, fst (snd ?P), snd (snd ?P))"
    using e1 by (rule triple_collapse)
  have h3: "?V = (False, fst (snd ?V), 0, snd (snd (snd ?V)))"
    using e3 by (blast intro: quad_collapse)
  have "fst (backupServiceInfo ?D 3 (?pre @ Some ?app # [Some (demo_service [Some good_image] [])]) offline)
       = Error (''Application('' @ ServiceAlias tenant_service @ '') Backup build version failure'')"
    by (simp only: no_version_aborts [OF h1 e2 h3] fst_conv)
  with e1 e2 e3 show ?thesis
    by blast
qed

section \<open>C7: a version whose artifact is absent\<close>

text \<open>
  C7. When the walk reaches (the counter is below the cap) a version of kind slug or
  image and of status success, and the existence check answers that the artifact is not
  there, then the version's status becomes lost, the counter is passed on unchanged,
  and the walk continues with the next versions from the state the check left: the
  result of the whole walk is the result of the walk over the remaining versions, with
  the lost version in front.
\<close>

theorem absent_version_lost:
  assumes "n < cap"
      and "FinalStatus v = ''success''"
      and "DeliveredType v = ''slug'' \<or> DeliveredType v = ''image''"
      and "fst (fst (checkVersionExist env v s)) = False"
  shows "backupVersions env cap app svc (Some v # vs) n s =
           (case backupVersions env cap app svc vs n (snd (checkVersionExist env v s)) of
              (p, vs', r) \<Rightarrow> (p, Some (v\<lparr>FinalStatus := ''lost''\<rparr>) # vs', r))"
proof -
  obtain eo s1 where c: "checkVersionExist env v s = ((False, eo), s1)"
    using assms(4) by (cases "checkVersionExist env v s") auto
  have "backupVersion env app svc v n s = (v\<lparr>FinalStatus := ''lost''\<rparr>, n, s1)"
    using assms(2,3) c by (rule backupVersion_not_ok)
  with assms(1) c show ?thesis
    by (simp add: backupVersions_step)
qed

theorem absent_version_lost_witness:
  "(0::int) < 3
   \<and> FinalStatus missing_slug = ''success''
   \<and> DeliveredType missing_slug = ''slug''
   \<and> fst (Stat (demo no_snapshot) (DeliveredPath missing_slug) (world offline)) = StatNotExist
   \<and> fst (fst (checkVersionExist (demo no_snapshot) missing_slug offline)) = False
   \<and> backupVersions (demo no_snapshot) 3 (demo_service [] []) tenant_service
        (Some missing_slug # [Some good_slug]) 0 offline =
       (case backupVersions (demo no_snapshot) 3 (demo_service [] []) tenant_service [Some good_slug] 0
               (snd (checkVersionExist (demo no_snapshot) missing_slug offline)) of
          (p, vs', r) \<Rightarrow> (p, Some (missing_slug\<lparr>FinalStatus := ''lost''\<rparr>) # vs', r))
   \<and> fst (snd (snd (backupVersions (demo no_snapshot) 3 (demo_service [] []) tenant_service
        (Some missing_slug # [Some good_slug]) 0 offline))) = 1"
proof -
  have h: "(0::int) < 3" "FinalStatus missing_slug = ''success''"
    "DeliveredType missing_slug = ''slug'' \<or> DeliveredType missing_slug = ''image''"
    "fst (fst (checkVersionExist (demo no_snapshot) missing_slug offline)) = False"
    by (simp_all add: demo_defs more_demo_defs checkVersionExist_def machine_defs)
  have e: "DeliveredType missing_slug = ''slug''"
    "fst (Stat (demo no_snapshot) (DeliveredPath missing_slug) (world offline)) = StatNotExist"
    "fst (snd (snd (backupVersions (demo no_snapshot) 3 (demo_service [] []) tenant_service
        (Some missing_slug # [Some good_slug]) 0 offline))) = 1"
    by (simp_all add: demo_defs more_demo_defs loop_defs machine_defs remote_slug_def)
  from absent_version_lost [OF h] h e show ?thesis
    by blast
qed

section \<open>C8: a transfer that fails\<close>

text \<open>
  C8. When the walk reaches a version of status success whose existence check passes and
  whose upload (uploadSlug for a slug, uploadImage for an image) returns an error, then
  the error is logged through logrus with the service name and the build version, the
  counter is passed on unchanged, the version is unchanged, and the walk continues with
  the next versions. The error itself goes nowhere but into that log line: the walk
  returns no error (its result has no error component).
\<close>

theorem transfer_failure_soft:
  assumes "n < cap"
      and "FinalStatus v = ''success''"
      and "checkVersionExist env v s = ((True, eo), s1)"
      and "DeliveredType v = ''slug'' \<and> uploadSlug env app v s1 = (Some e, s2)
           \<or> DeliveredType v = ''image'' \<and> uploadImage env app v s1 = (Some e, s2)"
  shows "backupVersions env cap app svc (Some v # vs) n s =
           (case backupVersions env cap app svc vs n
                   (say (LogrusErrorf (''upload app '' @ ServiceName svc @ '' version '' @ BuildVersion v
                           @ (if DeliveredType v = ''slug'' then '' slug file error.'' else '' image error.'')
                           @ e)) s2) of
              (p, vs', r) \<Rightarrow> (p, Some v # vs', r))"
proof -
  have "backupVersion env app svc v n s =
          (v, n, say (LogrusErrorf (''upload app '' @ ServiceName svc @ '' version '' @ BuildVersion v
                   @ (if DeliveredType v = ''slug'' then '' slug file error.'' else '' image error.'') @ e)) s2)"
    using assms(2,3,4) by (rule backupVersion_upload_failed)
  with assms(1) show ?thesis
    by simp
qed

theorem transfer_failure_soft_witness:
  "(0::int) < 3
   \<and> FinalStatus unreadable_slug = ''success''
   \<and> DeliveredType unreadable_slug = ''slug''
   \<and> fst (checkVersionExist (demo no_snapshot) unreadable_slug offline) = (True, None)
   \<and> fst (uploadSlug (demo no_snapshot) (demo_service [] []) unreadable_slug
             (snd (checkVersionExist (demo no_snapshot) unreadable_slug offline))) = Some ''read error''
   \<and> backupVersions (demo no_snapshot) 3 (demo_service [] []) tenant_service
        (Some unreadable_slug # [Some good_slug]) 0 offline =
       (case backupVersions (demo no_snapshot) 3 (demo_service [] []) tenant_service [Some good_slug] 0
               (say (LogrusErrorf (''upload app '' @ ServiceName tenant_service @ '' version ''
                       @ BuildVersion unreadable_slug
                       @ (if DeliveredType unreadable_slug = ''slug'' then '' slug file error.''
                          else '' image error.'') @ ''read error''))
                  (snd (uploadSlug (demo no_snapshot) (demo_service [] []) unreadable_slug
                          (snd (checkVersionExist (demo no_snapshot) unreadable_slug offline))))) of
          (p, vs', r) \<Rightarrow> (p, Some unreadable_slug # vs', r))
   \<and> fst (snd (snd (backupVersions (demo no_snapshot) 3 (demo_service [] []) tenant_service
        (Some unreadable_slug # [Some good_slug]) 0 offline))) = 1"
proof -
  let ?s1 = "snd (checkVersionExist (demo no_snapshot) unreadable_slug offline)"
  let ?s2 = "snd (uploadSlug (demo no_snapshot) (demo_service [] []) unreadable_slug ?s1)"
  have e: "DeliveredType unreadable_slug = ''slug''"
    "fst (checkVersionExist (demo no_snapshot) unreadable_slug offline) = (True, None)"
    "fst (uploadSlug (demo no_snapshot) (demo_service [] []) unreadable_slug ?s1) = Some ''read error''"
    "fst (snd (snd (backupVersions (demo no_snapshot) 3 (demo_service [] []) tenant_service
        (Some unreadable_slug # [Some good_slug]) 0 offline))) = 1"
    by (simp_all add: demo_defs more_demo_defs loop_defs machine_defs remote_slug_def)
  have h: "(0::int) < 3" "FinalStatus unreadable_slug = ''success''"
    by (simp_all add: demo_defs more_demo_defs)
  have c: "checkVersionExist (demo no_snapshot) unreadable_slug offline = ((True, None), ?s1)"
    using e(2) by (rule pair_collapse)
  have u: "uploadSlug (demo no_snapshot) (demo_service [] []) unreadable_slug ?s1 = (Some ''read error'', ?s2)"
    using e(3) by (rule pair_collapse)
  have k: "DeliveredType unreadable_slug = ''slug''
             \<and> uploadSlug (demo no_snapshot) (demo_service [] []) unreadable_slug ?s1 = (Some ''read error'', ?s2)
           \<or> DeliveredType unreadable_slug = ''image''
             \<and> uploadImage (demo no_snapshot) (demo_service [] []) unreadable_slug ?s1 = (Some ''read error'', ?s2)"
    using e(1) u by blast
  from transfer_failure_soft [OF h c k] h e show ?thesis
    by blast
qed

section \<open>C9: a plugin image that cannot be pulled or exported\<close>

text \<open>
  C9. In a run on a structured snapshot whose services were backed up without error, if
  the plugin records before \<open>pv\<close> were backed up and the pull of the image of \<open>pv\<close>
  fails or, after the pull, its export fails, with the error \<open>e\<close>, then the plugin loop
  returns \<open>e\<close> in the state the failing record left, whatever records come after
  \<open>pv\<close>, and Run returns \<open>e\<close> at once: its final state is that state plus one log line,
  so no later record is processed and no archive is made.
\<close>

theorem plugin_failure_aborts:
  assumes "ext (ReadFile env (SourceDir s @ ''/region_apps_metadata.json'')) s = (Inr metadata, s0)"
      and "Unmarshal_AppSnapshot env metadata = Inr snap"
      and "backupServiceInfo env cap (Services snap) s0 = (OK, services, sA)"
      and "PluginBuildVersions snap = pre @ Some pv # post"
      and "backupPlugins env pre (say (LoggerInfo ''Start backup plugin'' ''backup_builder'' ''starting'') sA) = (OK, s1)"
      and "plugin_failure env pv s1 = Some e"
  shows "backupPlugins env (pre @ Some pv # post) (say (LoggerInfo ''Start backup plugin'' ''backup_builder'' ''starting'') sA)
           = (Error e, snd (backupPlugins env [Some pv] s1))
       \<and> Run env cap s =
           (Error e, say (LoggerInfo ''Failed to backup metadata plugin info'' ''backup_builder'' ''failure'')
                       (snd (backupPlugins env [Some pv] s1)))"
proof -
  define sP where "sP = say (LoggerInfo ''Start backup plugin'' ''backup_builder'' ''starting'') sA"
  define sF where "sF = snd (backupPlugins env [Some pv] s1)"
  have "backupPlugins env (pre @ Some pv # post) sP = backupPlugins env (Some pv # post) s1"
    using assms(5) unfolding sP_def by (rule backupPlugins_append)
  also have "\<dots> = (Error e, sF)"
    unfolding sF_def using assms(6) by (rule backupPlugins_failure)
  finally have p: "backupPlugins env (pre @ Some pv # post) sP = (Error e, sF)" .
  have j: "judgeMetadataVersion env metadata = (NewMetadata, None)"
    using assms(2) by (simp add: judgeMetadataVersion_def nil_of_def)
  have "backupPluginInfo env (snap\<lparr>Services := services\<rparr>) sA = (Error e, sF)"
    using p assms(4) by (simp add: backupPluginInfo_def sP_def)
  with assms(2,3) have "Run_new env cap metadata s0 =
          (Error e, say (LoggerInfo ''Failed to backup metadata plugin info'' ''backup_builder'' ''failure'') sF)"
    by (simp add: Run_new_def)
  with assms(1) j have "Run env cap s =
          (Error e, say (LoggerInfo ''Failed to backup metadata plugin info'' ''backup_builder'' ''failure'') sF)"
    by (simp add: Run_def NewMetadata_def OldMetadata_def)
  with p show ?thesis
    unfolding sP_def sF_def by (rule conjI)
qed

theorem plugin_failure_aborts_witness:
  "fst (ext (ReadFile (demo plugin_snapshot) (SourceDir offline @ ''/region_apps_metadata.json'')) offline)
     = Inr ''{}''
   \<and> Unmarshal_AppSnapshot (demo plugin_snapshot) ''{}'' = Inr plugin_snapshot
   \<and> PluginBuildVersions plugin_snapshot =
       [Some (demo_plugin ''p1'' ''hub/plugin1'')] @ Some (demo_plugin ''p2'' ''hub/nopull'')
         # [Some (demo_plugin ''p3'' ''hub/plugin3'')]
   \<and> fst (Run (demo plugin_snapshot) 3 offline) = Error ''pull access denied''"
proof -
  let ?D = "demo plugin_snapshot"
  let ?R = "ext (ReadFile ?D (SourceDir offline @ ''/region_apps_metadata.json'')) offline"
  let ?I = "backupServiceInfo ?D 3 (Services plugin_snapshot) (snd ?R)"
  let ?sP = "say (LoggerInfo ''Start backup plugin'' ''backup_builder'' ''starting'') (snd (snd ?I))"
  let ?P = "backupPlugins ?D [Some (demo_plugin ''p1'' ''hub/plugin1'')] ?sP"
  have e1: "fst ?R = Inr ''{}''"
    by (simp add: demo_defs more_demo_defs machine_defs)
  have e2: "Unmarshal_AppSnapshot ?D ''{}'' = Inr plugin_snapshot"
    by (simp add: demo_defs)
  have e3: "fst ?I = OK"
    by (simp add: demo_defs more_demo_defs loop_defs machine_defs remote_slug_def)
  have e4: "PluginBuildVersions plugin_snapshot =
       [Some (demo_plugin ''p1'' ''hub/plugin1'')] @ Some (demo_plugin ''p2'' ''hub/nopull'')
         # [Some (demo_plugin ''p3'' ''hub/plugin3'')]"
    by (simp add: more_demo_defs)
  have e5: "fst ?P = OK"
    by (simp add: demo_defs more_demo_defs loop_defs machine_defs remote_slug_def)
  have e6: "plugin_failure ?D (demo_plugin ''p2'' ''hub/nopull'') (snd ?P) = Some ''pull access denied''"
    by (simp add: plugin_failure_def demo_defs more_demo_defs)
  have h1: "?R = (Inr ''{}'', snd ?R)"
    using e1 by (rule pair_collapse)
  have h3: "?I = (OK, fst (snd ?I), snd (snd ?I))"
    using e3 by (rule triple_collapse)
  have h5: "?P = (OK, snd ?P)"
    using e5 by (rule pair_collapse)
  have "fst (Run ?D 3 offline) = Error ''pull access denied''"
    using plugin_failure_aborts [OF h1 e2 h3 e4 h5 e6] by (simp only: fst_conv)
  with e1 e2 e4 show ?thesis
    by blast
qed

section \<open>C10: an existence check that raises an error\<close>

text \<open>
  C10. When the walk reaches a version of status success and its existence check itself
  fails (for an image the construction of the registry client or the fetch of the
  manifest returns an error; for a slug \<^verbatim>\<open>os.Stat\<close> returns an error other than
  not-exist), then checkVersionExist returns false with that error, the loop body drops
  the error and does what it does for an absent artifact: the status becomes lost, the
  counter is unchanged, and the walk continues with the next versions. The error is not
  part of what the walk returns.
\<close>

theorem check_error_discarded:
  assumes "n < cap"
      and "FinalStatus v = ''success''"
      and "DeliveredType v = ''image''
             \<and> (fst (NewInsecure env (Host (ImageNameHandle env (DeliveredPath v))) [] [] (world s)) = Some e
                \<or> fst (NewInsecure env (Host (ImageNameHandle env (DeliveredPath v))) [] [] (world s)) = None
                  \<and> fst (Manifest env (Host (ImageNameHandle env (DeliveredPath v)))
                           (Name (ImageNameHandle env (DeliveredPath v)))
                           (Tag (ImageNameHandle env (DeliveredPath v)))
                           (snd (NewInsecure env (Host (ImageNameHandle env (DeliveredPath v))) [] [] (world s))))
                      = Some e)
           \<or> DeliveredType v = ''slug'' \<and> fst (Stat env (DeliveredPath v) (world s)) = StatError e"
  shows "fst (checkVersionExist env v s) = (False, Some e)
       \<and> backupVersion env app svc v n s = (v\<lparr>FinalStatus := ''lost''\<rparr>, n, snd (checkVersionExist env v s))
       \<and> backupVersions env cap app svc (Some v # vs) n s =
           (case backupVersions env cap app svc vs n (snd (checkVersionExist env v s)) of
              (p, vs', r) \<Rightarrow> (p, Some (v\<lparr>FinalStatus := ''lost''\<rparr>) # vs', r))"
proof -
  have c: "fst (checkVersionExist env v s) = (False, Some e)"
    using assms(3)
    by (auto simp: checkVersionExist_def ext_def Let_def split: prod.splits option.splits)
  then have c': "checkVersionExist env v s = ((False, Some e), snd (checkVersionExist env v s))"
    by (metis prod.collapse)
  have kind: "DeliveredType v = ''slug'' \<or> DeliveredType v = ''image''"
    using assms(3) by blast
  have b: "backupVersion env app svc v n s = (v\<lparr>FinalStatus := ''lost''\<rparr>, n, snd (checkVersionExist env v s))"
    using assms(2) kind c' by (rule backupVersion_not_ok)
  with assms(1) c show ?thesis
    by simp
qed

theorem check_error_discarded_witness:
  "(0::int) < 3
   \<and> FinalStatus gone_image = ''success''
   \<and> DeliveredType gone_image = ''image''
   \<and> fst (NewInsecure (demo no_snapshot) (Host (ImageNameHandle (demo no_snapshot) (DeliveredPath gone_image)))
             [] [] (world offline)) = None
   \<and> fst (Manifest (demo no_snapshot) (Host (ImageNameHandle (demo no_snapshot) (DeliveredPath gone_image)))
             (Name (ImageNameHandle (demo no_snapshot) (DeliveredPath gone_image)))
             (Tag (ImageNameHandle (demo no_snapshot) (DeliveredPath gone_image)))
             (snd (NewInsecure (demo no_snapshot)
                     (Host (ImageNameHandle (demo no_snapshot) (DeliveredPath gone_image))) [] [] (world offline))))
       = Some ''manifest unknown''
   \<and> fst (checkVersionExist (demo no_snapshot) gone_image offline) = (False, Some ''manifest unknown'')
   \<and> backupVersion (demo no_snapshot) (demo_service [] []) tenant_service gone_image 0 offline =
       (gone_image\<lparr>FinalStatus := ''lost''\<rparr>, 0, snd (checkVersionExist (demo no_snapshot) gone_image offline))
   \<and> backupVersions (demo no_snapshot) 3 (demo_service [] []) tenant_service
        (Some gone_image # [Some good_slug]) 0 offline =
       (case backupVersions (demo no_snapshot) 3 (demo_service [] []) tenant_service [Some good_slug] 0
               (snd (checkVersionExist (demo no_snapshot) gone_image offline)) of
          (p, vs', r) \<Rightarrow> (p, Some (gone_image\<lparr>FinalStatus := ''lost''\<rparr>) # vs', r))"
proof -
  let ?D = "demo no_snapshot"
  let ?host = "Host (ImageNameHandle ?D (DeliveredPath gone_image))"
  have h: "(0::int) < 3" "FinalStatus gone_image = ''success''"
    by (simp_all add: demo_defs more_demo_defs)
  have e: "DeliveredType gone_image = ''image''"
    "fst (NewInsecure ?D ?host [] [] (world offline)) = None"
    "fst (Manifest ?D ?host (Name (ImageNameHandle ?D (DeliveredPath gone_image)))
             (Tag (ImageNameHandle ?D (DeliveredPath gone_image)))
             (snd (NewInsecure ?D ?host [] [] (world offline)))) = Some ''manifest unknown''"
    by (simp_all add: demo_defs more_demo_defs)
  then have k: "DeliveredType gone_image = ''image''
             \<and> (fst (NewInsecure ?D ?host [] [] (world offline)) = Some ''manifest unknown''
                \<or> fst (NewInsecure ?D ?host [] [] (world offline)) = None
                  \<and> fst (Manifest ?D ?host (Name (ImageNameHandle ?D (DeliveredPath gone_image)))
                           (Tag (ImageNameHandle ?D (DeliveredPath gone_image)))
                           (snd (NewInsecure ?D ?host [] [] (world offline)))) = Some ''manifest unknown'')
           \<or> DeliveredType gone_image = ''slug''
             \<and> fst (Stat ?D (DeliveredPath gone_image) (world offline)) = StatError ''manifest unknown''"
    by blast
  from check_error_discarded [OF h k] h e show ?thesis
    by blast
qed

end
